theory Spec2Isabelle
  imports Complex_Main "HOL-Library.AList"
begin

section \<open>Values\<close>

text \<open>
  A Python float is represented by the real number it denotes, or by one of the three
  special values that \<^verbatim>\<open>float()\<close> can also produce. The program never computes with
  floats: it parses them, stores them and writes them out.
\<close>

datatype pyfloat = Fin real | PosInf | NegInf | NaN

text \<open>
  The values that occur as fields of a row or in a JSON body: floats, strings,
  \<^verbatim>\<open>None\<close>, integers (the \<^verbatim>\<open>ts\<close> of the simulated row), booleans (the \<^verbatim>\<open>success\<close> flag
  of the utility endpoints) and, in the body of a request, lists and dicts (a dict as the
  list of its items, the keys distinct).
\<close>

datatype pyval = VFloat pyfloat | VStr string | VNone | VInt int | VBool bool
  | VList "pyval list" | VDict "(string \<times> pyval) list"

text \<open>
  A Python dict with string keys, in insertion order. Assigning to a key that is already
  there replaces the value in place, assigning to a new key appends: this is
  \<^const>\<open>AList.update\<close>.
\<close>

type_synonym row = "(string \<times> pyval) list"

text \<open>
  What \<^verbatim>\<open>run_query\<close> returns: the dict \<^verbatim>\<open>{"error": msg}\<close> or the list of rows.
\<close>

datatype qresult = Error string | Rows "row list"

section \<open>The Athena client\<close>

text \<open>
  The three calls of the boto3 client that \<^verbatim>\<open>run_query\<close> makes. Each one either raises
  an exception (\<open>Inl\<close> of its message, \<^verbatim>\<open>str(e)\<close>; this covers the call itself and the
  subscripting of a response that lacks a key) or returns the part of the response that
  the code reads:
  \<^item> \<open>start_query_execution\<close>: the \<^verbatim>\<open>QueryExecutionId\<close>;
  \<^item> \<open>get_query_execution\<close>: the \<^verbatim>\<open>State\<close> and the optional \<^verbatim>\<open>StateChangeReason\<close>; the
    second argument counts the status polls made before this one, so that a backend is
    any sequence of answers;
  \<^item> \<open>get_query_results\<close>: the rows, each row the list of its cells, each cell its
    \<^verbatim>\<open>VarCharValue\<close> when it has one.
\<close>

record athena =
  start_query_execution :: "string \<Rightarrow> string + string"
  get_query_execution :: "string \<Rightarrow> nat \<Rightarrow> string + (string \<times> string option)"
  get_query_results :: "string \<Rightarrow> string + string option list list"

section \<open>Coercion of result cells\<close>

text \<open>
  \<^verbatim>\<open>float(value)\<close>: on \<^verbatim>\<open>None\<close> it raises TypeError; on a string it is the builtin
  conversion, which is a parameter \<open>parse\<close> of the model (\<open>None\<close> where it raises
  ValueError). The code catches both exceptions in one clause.
\<close>

definition py_float :: "(string \<Rightarrow> pyfloat option) \<Rightarrow> string option \<Rightarrow> pyfloat option" where
  "py_float parse value = (case value of None \<Rightarrow> None | Some s \<Rightarrow> parse s)"

definition identifier_columns :: "string list" where
  "identifier_columns = [''device'', ''device_id'', ''alert_key'']"

text \<open>The value stored under \<open>header\<close> for one cell (lines 62 to 76).\<close>

definition coerce_cell :: "(string \<Rightarrow> pyfloat option) \<Rightarrow> string \<Rightarrow> string option \<Rightarrow> pyval" where
  "coerce_cell parse header value =
     (case py_float parse value of
        Some float_val \<Rightarrow> VFloat float_val
      | None \<Rightarrow>
          if header \<in> set identifier_columns
          then (case value of Some s \<Rightarrow> VStr s | None \<Rightarrow> VNone)
          else VFloat (Fin 0))"

definition index_error :: string where
  "index_error = ''list index out of range''"

definition key_error_VarCharValue :: string where
  "key_error_VarCharValue = [CHR 0x27] @ ''VarCharValue'' @ [CHR 0x27]"

text \<open>
  The inner loop \<^verbatim>\<open>for i, cell in enumerate(row['Data'])\<close>, from index \<open>i\<close> on, with the
  dict \<open>item\<close> built so far. \<^verbatim>\<open>headers[i]\<close> raises IndexError when the row has more cells
  than there are headers.
\<close>

fun build_item :: "(string \<Rightarrow> pyfloat option) \<Rightarrow> string list \<Rightarrow> nat \<Rightarrow> string option list
    \<Rightarrow> row \<Rightarrow> string + row" where
  "build_item parse headers i [] item = Inr item"
| "build_item parse headers i (value # cells) item =
     (if i < length headers
      then build_item parse headers (Suc i) cells
             (AList.update (headers ! i) (coerce_cell parse (headers ! i) value) item)
      else Inl index_error)"

text \<open>The outer loop \<^verbatim>\<open>for row in rows[1:]\<close>, appending each item to \<open>data\<close>.\<close>

fun build_data :: "(string \<Rightarrow> pyfloat option) \<Rightarrow> string list \<Rightarrow> string option list list
    \<Rightarrow> row list \<Rightarrow> string + row list" where
  "build_data parse headers [] data = Inr data"
| "build_data parse headers (r # rs) data =
     (case build_item parse headers 0 r [] of
        Inl e \<Rightarrow> Inl e
      | Inr item \<Rightarrow> build_data parse headers rs (data @ [item]))"

text \<open>
  \<^verbatim>\<open>[h['VarCharValue'] for h in rows[0]['Data']]\<close>: KeyError on a header cell without
  a value.
\<close>

fun read_headers :: "string option list \<Rightarrow> string + string list" where
  "read_headers [] = Inr []"
| "read_headers (None # hs) = Inl key_error_VarCharValue"
| "read_headers (Some h # hs) =
     (case read_headers hs of Inl e \<Rightarrow> Inl e | Inr names \<Rightarrow> Inr (h # names))"

text \<open>Lines 50 to 81: from the fetched rows to the returned value.\<close>

definition parse_rows :: "(string \<Rightarrow> pyfloat option) \<Rightarrow> string option list list \<Rightarrow> string + qresult" where
  "parse_rows parse rows =
     (if length rows \<le> 1 then Inr (Rows [])
      else case read_headers (hd rows) of
             Inl e \<Rightarrow> Inl e
           | Inr headers \<Rightarrow>
               (case build_data parse headers (tl rows) [] of
                  Inl e \<Rightarrow> Inl e
                | Inr data \<Rightarrow> Inr (Rows data)))"

section \<open>The poll loop\<close>

text \<open>
  How the \<^verbatim>\<open>while\<close> loop of lines 31 to 43 is left: by \<^verbatim>\<open>break\<close> or by its condition
  (\<open>Fell_through\<close>, with the local variable \<^verbatim>\<open>status\<close>, which is unbound when the body
  never ran), or by the \<^verbatim>\<open>return\<close> of line 40.
\<close>

datatype loop_exit = Fell_through "string option" | Returned qresult

text \<open>
  The loop, with \<open>waited\<close> the number of one-second sleeps so far, which is also the
  number of polls so far. The result carries the final value of \<open>waited\<close>.
\<close>

function poll_loop :: "athena \<Rightarrow> string \<Rightarrow> int \<Rightarrow> nat \<Rightarrow> string option
    \<Rightarrow> (string + loop_exit) \<times> nat" where
  "poll_loop client query_id max_wait_seconds waited status =
     (if int waited < max_wait_seconds
      then (case get_query_execution client query_id waited of
              Inl e \<Rightarrow> (Inl e, waited)
            | Inr (state, reason) \<Rightarrow>
                if state = ''SUCCEEDED'' then (Inr (Fell_through (Some state)), waited)
                else if state \<in> set [''FAILED'', ''CANCELLED'']
                then (Inr (Returned (Error (''Query '' @ state @ '': '' @
                        (case reason of None \<Rightarrow> ''Unknown'' | Some r \<Rightarrow> r)))), waited)
                else poll_loop client query_id max_wait_seconds (Suc waited) (Some state))
      else (Inr (Fell_through status), waited))"
  by pat_completeness auto
termination
  by (relation "measure (\<lambda>(client, query_id, max_wait_seconds, waited, status).
        nat (max_wait_seconds - int waited))") auto

declare poll_loop.simps [simp del]

text \<open>
  The message of the UnboundLocalError that line 45 raises when the loop body never ran
  (CPython 3.11 and later; earlier versions word it differently).
\<close>

definition unbound_status :: string where
  "unbound_status = ''cannot access local variable '' @ [CHR 0x27] @ ''status'' @ [CHR 0x27]
     @ '' where it is not associated with a value''"

section \<open>The query proxy\<close>

text \<open>
  The body of the \<^verbatim>\<open>try\<close> block: \<open>Inl\<close> is an exception that leaves it, \<open>Inr\<close> a value it
  returns. The second component is the number of sleeps made.
\<close>

definition run_query_body :: "athena \<Rightarrow> (string \<Rightarrow> pyfloat option) \<Rightarrow> string \<Rightarrow> int
    \<Rightarrow> (string + qresult) \<times> nat" where
  "run_query_body client parse query max_wait_seconds =
     (case start_query_execution client query of
        Inl e \<Rightarrow> (Inl e, 0)
      | Inr query_id \<Rightarrow>
          (case poll_loop client query_id max_wait_seconds 0 None of
             (Inl e, waited) \<Rightarrow> (Inl e, waited)
           | (Inr (Returned r), waited) \<Rightarrow> (Inr r, waited)
           | (Inr (Fell_through None), waited) \<Rightarrow> (Inl unbound_status, waited)
           | (Inr (Fell_through (Some status)), waited) \<Rightarrow>
               if status \<noteq> ''SUCCEEDED'' then (Inr (Error ''Query timeout''), waited)
               else (case get_query_results client query_id of
                       Inl e \<Rightarrow> (Inl e, waited)
                     | Inr rows \<Rightarrow> (parse_rows parse rows, waited))))"

text \<open>
  \<^verbatim>\<open>run_query\<close>: the \<^verbatim>\<open>try\<close> block under its \<^verbatim>\<open>except Exception as e\<close>, which returns
  \<^verbatim>\<open>{"error": str(e)}\<close>. \<open>Inl\<close> would be an exception raised to the caller.
\<close>

definition run_query :: "athena \<Rightarrow> (string \<Rightarrow> pyfloat option) \<Rightarrow> string \<Rightarrow> int
    \<Rightarrow> (string + qresult) \<times> nat" where
  "run_query client parse query max_wait_seconds =
     (case run_query_body client parse query max_wait_seconds of
        (Inl e, waited) \<Rightarrow> (Inr (Error e), waited)
      | (Inr r, waited) \<Rightarrow> (Inr r, waited))"

section \<open>HTTP handlers\<close>

text \<open>
  A JSON response body is an array of objects or one object; a response is a status code
  and a body. \<^verbatim>\<open>jsonify(x)\<close> answers with status 200.
\<close>

datatype body = Arr "row list" | Obj row

record response =
  status :: nat
  body :: body

definition jsonify :: "qresult \<Rightarrow> response" where
  "jsonify data = (case data of
       Rows rs \<Rightarrow> \<lparr>status = 200, body = Arr rs\<rparr>
     | Error e \<Rightarrow> \<lparr>status = 200, body = Obj [(''error'', VStr e)]\<rparr>)"

text \<open>Python truth value of what \<^verbatim>\<open>run_query\<close> returned: the error dict is never empty.\<close>

definition truthy :: "qresult \<Rightarrow> bool" where
  "truthy data = (case data of Rows rs \<Rightarrow> rs \<noteq> [] | Error e \<Rightarrow> True)"

text \<open>\<^verbatim>\<open>isinstance(data, dict) and "error" in data\<close>\<close>

definition is_error_dict :: "qresult \<Rightarrow> bool" where
  "is_error_dict data = (case data of Rows rs \<Rightarrow> False | Error e \<Rightarrow> True)"

text \<open>
  A triple-quoted SQL literal of the source: a newline, the lines, and the indentation of
  the closing quotes.
\<close>

definition sql_text :: "string list \<Rightarrow> string" where
  "sql_text ls = concat (map (\<lambda>l. CHR 0x0A # l) ls) @ CHR 0x0A # ''    ''"

definition latest_query :: string where
  "latest_query = sql_text
     [''    WITH ranked AS ('',
      ''        SELECT '',
      ''            device, co, smoke, temp, humidity, lpg,'',
      ''            CAST(to_unixtime(ts) AS BIGINT) as ts,'',
      ''            ROW_NUMBER() OVER (PARTITION BY device ORDER BY ts DESC) as rn'',
      ''        FROM processed'',
      ''    )'',
      ''    SELECT device, device AS device_id, co, smoke, temp, humidity, lpg, ts'',
      ''    FROM ranked'',
      ''    WHERE rn <= 20;'']"

definition avg_metrics_query :: string where
  "avg_metrics_query = sql_text
     [''    SELECT device,'',
      ''           AVG(co) AS avg_co,'',
      ''           AVG(smoke) AS avg_smoke,'',
      ''           AVG(temp) AS avg_temp'',
      ''    FROM processed'',
      ''    GROUP BY device'']"

definition max_metrics_query :: string where
  "max_metrics_query = sql_text
     [''    SELECT device,'',
      ''           MAX(co) AS max_co,'',
      ''           MAX(smoke) AS max_smoke,'',
      ''           MAX(temp) AS max_temp'',
      ''    FROM processed'',
      ''    GROUP BY device'']"

definition alert_counts_query :: string where
  "alert_counts_query = sql_text
     [''    SELECT device,'',
      ''           SUM(CASE WHEN co >= 0.120 THEN 1 ELSE 0 END) AS co_alerts'',
      ''    FROM processed'',
      ''    GROUP BY device'']"

definition humidity_co_query :: string where
  "humidity_co_query = sql_text
     [''    SELECT humidity, AVG(co) AS avg_co'',
      ''    FROM processed'',
      ''    GROUP BY humidity'',
      ''    ORDER BY humidity'']"

definition temp_dist_query :: string where
  "temp_dist_query = sql_text
     [''    SELECT temp, COUNT('' @ ''*) AS count'',
      ''    FROM processed'',
      ''    GROUP BY temp'',
      ''    ORDER BY temp'']"

text \<open>The hard-coded record of \<^verbatim>\<open>/latest\<close>; \<open>now\<close> is \<^verbatim>\<open>int(time.time())\<close>.\<close>

definition simulated_alert_row :: "int \<Rightarrow> row" where
  "simulated_alert_row now =
     [(''device'', VStr ''b8:27:eb:bf:9d:51''),
      (''device_id'', VStr ''b8:27:eb:bf:9d:51''),
      (''co'', VFloat (Fin 0.1305)),
      (''smoke'', VFloat (Fin 0.025)),
      (''temp'', VFloat (Fin 28.0)),
      (''humidity'', VFloat (Fin 40.0)),
      (''lpg'', VFloat (Fin 0.005)),
      (''ts'', VInt now),
      (''alert_key'', VStr ''simulated_tent1_danger_130'')]"

definition attribute_error_append :: string where
  "attribute_error_append = [CHR 0x27] @ ''dict'' @ [CHR 0x27] @ '' object has no attribute ''
     @ [CHR 0x27] @ ''append'' @ [CHR 0x27]"

text \<open>
  A handler returns a response, or (\<open>Inl\<close>) an exception leaves it. \<^verbatim>\<open>run_query\<close> is
  called with its default \<^verbatim>\<open>max_wait_seconds=30\<close>.
\<close>

definition latest :: "athena \<Rightarrow> (string \<Rightarrow> pyfloat option) \<Rightarrow> int \<Rightarrow> string + response" where
  "latest client parse now =
     (case fst (run_query client parse latest_query 30) of
        Inl e \<Rightarrow> Inl e
      | Inr data \<Rightarrow>
          if truthy data \<and> \<not> is_error_dict data
          then (case data of
                  Rows rs \<Rightarrow> Inr (jsonify (Rows (rs @ [simulated_alert_row now])))
                | Error e \<Rightarrow> Inl attribute_error_append)
          else Inr (jsonify (Rows [simulated_alert_row now])))"

text \<open>
  The five aggregate handlers have the same body and differ in the SQL only.
\<close>

definition aggregate :: "athena \<Rightarrow> (string \<Rightarrow> pyfloat option) \<Rightarrow> string \<Rightarrow> string + response" where
  "aggregate client parse query =
     (case fst (run_query client parse query 30) of
        Inl e \<Rightarrow> Inl e
      | Inr data \<Rightarrow>
          if \<not> truthy data \<or> is_error_dict data
          then Inr (jsonify (Rows []))
          else Inr (jsonify data))"

definition avg_metrics :: "athena \<Rightarrow> (string \<Rightarrow> pyfloat option) \<Rightarrow> string + response" where
  "avg_metrics client parse = aggregate client parse avg_metrics_query"

definition max_metrics :: "athena \<Rightarrow> (string \<Rightarrow> pyfloat option) \<Rightarrow> string + response" where
  "max_metrics client parse = aggregate client parse max_metrics_query"

definition alert_counts :: "athena \<Rightarrow> (string \<Rightarrow> pyfloat option) \<Rightarrow> string + response" where
  "alert_counts client parse = aggregate client parse alert_counts_query"

definition humidity_co :: "athena \<Rightarrow> (string \<Rightarrow> pyfloat option) \<Rightarrow> string + response" where
  "humidity_co client parse = aggregate client parse humidity_co_query"

definition temp_dist :: "athena \<Rightarrow> (string \<Rightarrow> pyfloat option) \<Rightarrow> string + response" where
  "temp_dist client parse = aggregate client parse temp_dist_query"

text \<open>
  \<^verbatim>\<open>/co_trend\<close>. The two sources of values outside the program are parameters:
  \<open>stamp i\<close> is the timestamp computed in iteration \<open>i\<close>, and \<open>draw n lo hi\<close> is the
  rounded result of the \<open>n\<close>-th call \<^verbatim>\<open>round(random.uniform(lo, hi), 6)\<close>.
\<close>

definition devices :: "string list" where
  "devices = [''b8:27:eb:bf:9d:51'', ''00:0f:00:70:91:0a'', ''1c:bf:ce:15:ec:4d'']"

definition trend_point :: "(nat \<Rightarrow> int) \<Rightarrow> (nat \<Rightarrow> real \<Rightarrow> real \<Rightarrow> pyfloat) \<Rightarrow> nat \<Rightarrow> nat \<Rightarrow> row" where
  "trend_point stamp draw i j =
     (let device = devices ! j;
          n = 3 * i + j;
          base_co =
            (if device = ''b8:27:eb:bf:9d:51''
             then (if i > 40 then draw n 0.120 0.1305
                   else if i > 30 then draw n 0.080 0.120
                   else draw n 0.003 0.008)
             else draw n 0.003 0.008)
      in [(''ts'', VInt (stamp i)), (''device'', VStr device), (''co'', VFloat base_co)])"

definition co_trend :: "(nat \<Rightarrow> int) \<Rightarrow> (nat \<Rightarrow> real \<Rightarrow> real \<Rightarrow> pyfloat) \<Rightarrow> string + response" where
  "co_trend stamp draw =
     Inr (jsonify (Rows (concat (map (\<lambda>i. map (trend_point stamp draw i) [0..<length devices])
                                  [0..<50]))))"

text \<open>
  The utility endpoints work on the process-wide set \<^verbatim>\<open>acknowledged_alerts\<close>, passed in
  and returned. A Python set holds no two equal elements, and \<^verbatim>\<open>add\<close> leaves the set as
  it is when an equal element is there. It is modelled by the list of its elements;
  \<open>py_eq\<close> is the equality \<^verbatim>\<open>==\<close> of the hashable values, under which a boolean, an
  integer and a float of the same number are equal and \<^verbatim>\<open>nan\<close> equals nothing.
\<close>

fun number_of :: "pyval \<Rightarrow> pyfloat option" where
  "number_of (VBool b) = Some (Fin (if b then 1 else 0))"
| "number_of (VInt i) = Some (Fin (of_int i))"
| "number_of (VFloat f) = Some f"
| "number_of v = None"

definition py_eq :: "pyval \<Rightarrow> pyval \<Rightarrow> bool" where
  "py_eq a b = (case (number_of a, number_of b) of
       (Some x, Some y) \<Rightarrow> x = y \<and> x \<noteq> NaN
     | (None, None) \<Rightarrow> a = b
     | _ \<Rightarrow> False)"

definition set_add :: "pyval \<Rightarrow> pyval list \<Rightarrow> pyval list" where
  "set_add v s = (if list_ex (\<lambda>x. py_eq x v) s then s else s @ [v])"

text \<open>The truth value that \<^verbatim>\<open>if alert_key:\<close> tests.\<close>

fun truth :: "pyval \<Rightarrow> bool" where
  "truth (VFloat f) = (f \<noteq> Fin 0)"
| "truth (VStr s) = (s \<noteq> [])"
| "truth VNone = False"
| "truth (VInt i) = (i \<noteq> 0)"
| "truth (VBool b) = b"
| "truth (VList xs) = (xs \<noteq> [])"
| "truth (VDict items) = (items \<noteq> [])"

text \<open>Lists and dicts cannot be elements of a set: \<^verbatim>\<open>add\<close> raises TypeError on them.\<close>

fun hashable :: "pyval \<Rightarrow> bool" where
  "hashable (VList xs) = False"
| "hashable (VDict items) = False"
| "hashable v = True"

fun type_name :: "pyval \<Rightarrow> string" where
  "type_name (VFloat f) = ''float''"
| "type_name (VStr s) = ''str''"
| "type_name VNone = ''NoneType''"
| "type_name (VInt i) = ''int''"
| "type_name (VBool b) = ''bool''"
| "type_name (VList xs) = ''list''"
| "type_name (VDict items) = ''dict''"

definition attribute_error_get :: "pyval \<Rightarrow> string" where
  "attribute_error_get v = [CHR 0x27] @ type_name v @ [CHR 0x27]
     @ '' object has no attribute '' @ [CHR 0x27] @ ''get'' @ [CHR 0x27]"

text \<open>The message of the TypeError (CPython up to 3.13; later versions word it differently).\<close>

definition type_error_unhashable :: "pyval \<Rightarrow> string" where
  "type_error_unhashable v = ''unhashable type: '' @ [CHR 0x27] @ type_name v @ [CHR 0x27]"

text \<open>\<^verbatim>\<open>d.get(key)\<close> on a dict: \<^verbatim>\<open>None\<close> for an absent key.\<close>

definition dict_get :: "(string \<times> pyval) list \<Rightarrow> string \<Rightarrow> pyval" where
  "dict_get items key = (case map_of items key of None \<Rightarrow> VNone | Some v \<Rightarrow> v)"

text \<open>
  \<^verbatim>\<open>acknowledge_alert\<close>. Its first argument is what \<^verbatim>\<open>request.json\<close> gives: the parsed
  body, which can be any JSON value, or (\<open>Inl\<close>) the exception that Flask raises when the
  request has no JSON body. \<^verbatim>\<open>.get\<close> exists on a dict only, so every other body raises
  AttributeError at line 276; a key that is true but not hashable raises TypeError at
  line 278. An exception leaves the handler (\<open>Inl\<close>) with the set as it was; the status
  that Flask then answers with is not 200.
\<close>

definition acknowledge_alert :: "string + pyval \<Rightarrow> pyval list \<Rightarrow> (string + response) \<times> pyval list" where
  "acknowledge_alert request_json acknowledged_alerts =
     (case request_json of
        Inl e \<Rightarrow> (Inl e, acknowledged_alerts)
      | Inr (VDict items) \<Rightarrow>
          (let alert_key = dict_get items ''alert_key'' in
           if truth alert_key
           then (if hashable alert_key
                 then (Inr \<lparr>status = 200,
                            body = Obj [(''success'', VBool True), (''acknowledged'', alert_key)]\<rparr>,
                       set_add alert_key acknowledged_alerts)
                 else (Inl (type_error_unhashable alert_key), acknowledged_alerts))
           else (Inr \<lparr>status = 400, body = Obj [(''success'', VBool False)]\<rparr>,
                 acknowledged_alerts))
      | Inr v \<Rightarrow> (Inl (attribute_error_get v), acknowledged_alerts))"

definition reset_alerts :: "pyval list \<Rightarrow> (string + response) \<times> pyval list" where
  "reset_alerts acknowledged_alerts =
     (Inr \<lparr>status = 200,
           body = Obj [(''success'', VBool True), (''message'', VStr ''All alerts reset'')]\<rparr>, [])"

text \<open>The routes of the application, and everything a handler reads from outside.\<close>

datatype endpoint = Latest | CoTrend | AvgMetrics | MaxMetrics | AlertCounts | HumidityCo
  | TempDist | AcknowledgeAlert | ResetAlerts

record world =
  backend :: athena
  float_of :: "string \<Rightarrow> pyfloat option"
  time_now :: int
  trend_stamp :: "nat \<Rightarrow> int"
  trend_draw :: "nat \<Rightarrow> real \<Rightarrow> real \<Rightarrow> pyfloat"
  json_body :: "string + pyval"

fun handle :: "world \<Rightarrow> endpoint \<Rightarrow> pyval list \<Rightarrow> (string + response) \<times> pyval list" where
  "handle w Latest acked = (latest (backend w) (float_of w) (time_now w), acked)"
| "handle w CoTrend acked = (co_trend (trend_stamp w) (trend_draw w), acked)"
| "handle w AvgMetrics acked = (avg_metrics (backend w) (float_of w), acked)"
| "handle w MaxMetrics acked = (max_metrics (backend w) (float_of w), acked)"
| "handle w AlertCounts acked = (alert_counts (backend w) (float_of w), acked)"
| "handle w HumidityCo acked = (humidity_co (backend w) (float_of w), acked)"
| "handle w TempDist acked = (temp_dist (backend w) (float_of w), acked)"
| "handle w AcknowledgeAlert acked = acknowledge_alert (json_body w) acked"
| "handle w ResetAlerts acked = reset_alerts acked"

text \<open>The endpoints whose handler calls \<^verbatim>\<open>run_query\<close>.\<close>

definition query_endpoints :: "endpoint list" where
  "query_endpoints = [Latest, AvgMetrics, MaxMetrics, AlertCounts, HumidityCo, TempDist]"

section \<open>Vocabulary of the properties\<close>

text \<open>
  A status poll observes PENDING when it returns a state that the loop neither breaks nor
  returns on (\<^verbatim>\<open>QUEUED\<close>, \<^verbatim>\<open>RUNNING\<close>); \<open>pending_before client query_id k\<close> says so of
  the polls \<open>0\<close> to \<open>k - 1\<close>.
\<close>

definition is_pending :: "string + (string \<times> string option) \<Rightarrow> bool" where
  "is_pending answer = (case answer of
       Inl e \<Rightarrow> False
     | Inr (state, reason) \<Rightarrow> state \<noteq> ''SUCCEEDED'' \<and> state \<notin> set [''FAILED'', ''CANCELLED''])"

definition pending_before :: "athena \<Rightarrow> string \<Rightarrow> nat \<Rightarrow> bool" where
  "pending_before client query_id k =
     list_all (\<lambda>j. is_pending (get_query_execution client query_id j)) [0..<k]"

text \<open>
  The kinds of value a field of a returned row can have: a float, a string, or
  \<^verbatim>\<open>None\<close> under an identifier column.
\<close>

definition field_ok :: "string \<Rightarrow> pyval \<Rightarrow> bool" where
  "field_ok h v = (case v of
       VFloat x \<Rightarrow> True
     | VStr s \<Rightarrow> True
     | VNone \<Rightarrow> h \<in> set identifier_columns
     | _ \<Rightarrow> False)"

text \<open>The proxy reports a failure when it returns the error dict.\<close>

definition reports_failure :: "(string + qresult) \<times> nat \<Rightarrow> bool" where
  "reports_failure res = (case fst res of Inr (Error e) \<Rightarrow> True | _ \<Rightarrow> False)"

text \<open>The SQL that the handler of an endpoint hands to the proxy, if it calls it.\<close>

fun endpoint_query :: "endpoint \<Rightarrow> string option" where
  "endpoint_query Latest = Some latest_query"
| "endpoint_query AvgMetrics = Some avg_metrics_query"
| "endpoint_query MaxMetrics = Some max_metrics_query"
| "endpoint_query AlertCounts = Some alert_counts_query"
| "endpoint_query HumidityCo = Some humidity_co_query"
| "endpoint_query TempDist = Some temp_dist_query"
| "endpoint_query ep = None"

definition proxy_failed :: "world \<Rightarrow> endpoint \<Rightarrow> bool" where
  "proxy_failed w ep = (case endpoint_query ep of
       None \<Rightarrow> False
     | Some query \<Rightarrow> reports_failure (run_query (backend w) (float_of w) query 30))"

section \<open>Concrete inputs\<close>

text \<open>
  A conversion for the examples: the plain decimal fragment of what \<^verbatim>\<open>float()\<close> accepts
  (an optional sign, digits, at most one point). On these strings it denotes the same
  number; the other strings that \<^verbatim>\<open>float()\<close> accepts (exponents, \<^verbatim>\<open>inf\<close>, \<^verbatim>\<open>nan\<close>,
  surrounding blanks, underscores) are not used in any example.
\<close>

definition digits_value :: "string \<Rightarrow> nat" where
  "digits_value ds = foldl (\<lambda>a c. 10 * a + (of_char c - 48)) 0 ds"

definition is_digit :: "char \<Rightarrow> bool" where
  "is_digit c = (c \<in> set ''0123456789'')"

definition decimal_float :: "string \<Rightarrow> pyfloat option" where
  "decimal_float s =
     (let negative = (case s of [] \<Rightarrow> False | c # r \<Rightarrow> c = CHR ''-'');
          unsigned = (case s of [] \<Rightarrow> []
                      | c # r \<Rightarrow> if c = CHR ''-'' \<or> c = CHR ''+'' then r else s);
          ip = takeWhile (\<lambda>c. c \<noteq> CHR ''.'') unsigned;
          fp = drop (Suc (length ip)) unsigned
      in if ip @ fp = [] \<or> \<not> list_all is_digit (ip @ fp) then None
         else Some (Fin ((if negative then - 1 else 1)
                * (real (digits_value ip) + real (digits_value fp) / 10 ^ length fp))))"

text \<open>
  A backend that answers from a script: the answer to the submission, the answers to the
  status polls in order (\<^verbatim>\<open>RUNNING\<close> once the script is used up), and the answer to the
  fetch.
\<close>

definition scripted :: "(string + string) \<Rightarrow> (string + (string \<times> string option)) list
    \<Rightarrow> (string + string option list list) \<Rightarrow> athena" where
  "scripted started polls results =
     \<lparr>start_query_execution = (\<lambda>query. started),
      get_query_execution = (\<lambda>query_id k. if k < length polls then polls ! k
                                            else Inr (''RUNNING'', None)),
      get_query_results = (\<lambda>query_id. results)\<rparr>"

definition sample_rows :: "string option list list" where
  "sample_rows =
     [[Some ''device'', Some ''temp'', Some ''smoke''],
      [Some ''tent-1'', Some ''12.5'', Some ''n/a'']]"

definition sample_success :: athena where
  "sample_success =
     scripted (Inr ''q-1'') [Inr (''QUEUED'', None), Inr (''SUCCEEDED'', None)] (Inr sample_rows)"

definition sample_data :: "row list" where
  "sample_data =
     [[(''device'', VStr ''tent-1''), (''temp'', VFloat (Fin 12.5)), (''smoke'', VFloat (Fin 0))]]"

definition sample_down :: athena where
  "sample_down = scripted (Inl ''Could not connect to the endpoint URL'') [] (Inr [])"

text \<open>A result set whose one data row has no value in either cell.\<close>

definition sample_nulls :: athena where
  "sample_nulls =
     scripted (Inr ''q-1'') [Inr (''SUCCEEDED'', None)]
       (Inr [[Some ''device'', Some ''co''], [None, None]])"

definition sample_world :: world where
  "sample_world =
     \<lparr>backend = sample_down, float_of = decimal_float, time_now = 1700000000,
      trend_stamp = (\<lambda>i. 1700000000 - 60 * (50 - int i)),
      trend_draw = (\<lambda>n lo hi. Fin lo),
      json_body = Inr (VDict [])\<rparr>"

lemmas sample_defs = scripted_def sample_rows_def sample_success_def sample_data_def
  sample_nulls_def sample_down_def sample_world_def decimal_float_def is_digit_def digits_value_def

lemmas proxy_defs = run_query_def run_query_body_def poll_loop.simps parse_rows_def
  coerce_cell_def py_float_def identifier_columns_def pending_before_def is_pending_def

section \<open>Properties of the poll loop\<close>

lemma pending_beforeD:
  "pending_before c q k \<Longrightarrow> j < k \<Longrightarrow> is_pending (get_query_execution c q j)"
  by (simp add: pending_before_def list_all_iff)

lemma poll_loop_step:
  assumes "is_pending (get_query_execution c q k)" and "int k < n"
  shows "\<exists>s. s \<noteq> ''SUCCEEDED'' \<and> poll_loop c q n k st = poll_loop c q n (Suc k) (Some s)"
proof -
  from assms(1) obtain s r where g: "get_query_execution c q k = Inr (s, r)"
    and s: "s \<noteq> ''SUCCEEDED''" "s \<notin> set [''FAILED'', ''CANCELLED'']"
    by (auto simp: is_pending_def split: sum.splits)
  have "poll_loop c q n k st = poll_loop c q n (Suc k) (Some s)"
    using g s assms(2) by (subst poll_loop.simps) simp
  with s show ?thesis by blast
qed

lemma poll_loop_skip:
  assumes "pending_before c q k" and "int k \<le> n"
  shows "\<exists>st'. poll_loop c q n 0 st = poll_loop c q n k st'
           \<and> (0 < k \<longrightarrow> (\<exists>s. st' = Some s \<and> s \<noteq> ''SUCCEEDED''))"
  using assms
proof (induction k)
  case 0
  then show ?case by auto
next
  case (Suc k)
  have pk: "pending_before c q k"
    using Suc.prems(1) by (simp add: pending_before_def)
  have "is_pending (get_query_execution c q k)"
    using Suc.prems(1) by (rule pending_beforeD) simp
  moreover have "int k < n" using Suc.prems(2) by simp
  ultimately have step: "\<And>st. \<exists>s. s \<noteq> ''SUCCEEDED'' \<and> poll_loop c q n k st = poll_loop c q n (Suc k) (Some s)"
    by (rule poll_loop_step)
  from Suc.IH [OF pk] Suc.prems(2) obtain st' where "poll_loop c q n 0 st = poll_loop c q n k st'"
    by auto
  with step [of st'] show ?case by auto
qed

lemma poll_loop_succeeded:
  assumes "pending_before c q k" "int k < n" "get_query_execution c q k = Inr (''SUCCEEDED'', r)"
  shows "poll_loop c q n 0 st = (Inr (Fell_through (Some ''SUCCEEDED'')), k)"
proof -
  from poll_loop_skip [OF assms(1), of n st] assms(2)
  obtain st' where "poll_loop c q n 0 st = poll_loop c q n k st'" by auto
  also have "\<dots> = (Inr (Fell_through (Some ''SUCCEEDED'')), k)"
    using assms(2,3) by (subst poll_loop.simps) simp
  finally show ?thesis .
qed

lemma poll_loop_failed:
  assumes "pending_before c q k" "int k < n" "get_query_execution c q k = Inr (state, reason)"
    "state = ''FAILED'' \<or> state = ''CANCELLED''"
  shows "poll_loop c q n 0 st = (Inr (Returned (Error (''Query '' @ state @ '': '' @
            (case reason of None \<Rightarrow> ''Unknown'' | Some r \<Rightarrow> r)))), k)"
proof -
  from poll_loop_skip [OF assms(1), of n st] assms(2)
  obtain st' where "poll_loop c q n 0 st = poll_loop c q n k st'" by auto
  also have "\<dots> = (Inr (Returned (Error (''Query '' @ state @ '': '' @
            (case reason of None \<Rightarrow> ''Unknown'' | Some r \<Rightarrow> r)))), k)"
    using assms(2,3,4) by (subst poll_loop.simps) auto
  finally show ?thesis .
qed

lemma poll_loop_raised:
  assumes "pending_before c q k" "int k < n" "get_query_execution c q k = Inl e"
  shows "poll_loop c q n 0 st = (Inl e, k)"
proof -
  from poll_loop_skip [OF assms(1), of n st] assms(2)
  obtain st' where "poll_loop c q n 0 st = poll_loop c q n k st'" by auto
  also have "\<dots> = (Inl e, k)"
    using assms(2,3) by (subst poll_loop.simps) simp
  finally show ?thesis .
qed

lemma poll_loop_exhausted:
  assumes "pending_before c q (nat n)" "0 < n"
  shows "\<exists>s. s \<noteq> ''SUCCEEDED'' \<and> poll_loop c q n 0 st = (Inr (Fell_through (Some s)), nat n)"
proof -
  from poll_loop_skip [OF assms(1), of n st] assms(2)
  obtain s where s: "s \<noteq> ''SUCCEEDED''"
    and "poll_loop c q n 0 st = poll_loop c q n (nat n) (Some s)" by auto
  moreover have "poll_loop c q n (nat n) (Some s) = (Inr (Fell_through (Some s)), nat n)"
    using assms(2) by (subst poll_loop.simps) simp
  ultimately show ?thesis by auto
qed

lemma poll_loop_no_budget:
  "n \<le> 0 \<Longrightarrow> poll_loop c q n 0 st = (Inr (Fell_through st), 0)"
  by (subst poll_loop.simps) simp

section \<open>Properties of the query proxy\<close>

lemma run_query_body_started:
  "start_query_execution c query = Inr qid \<Longrightarrow>
   run_query_body c parse query n =
     (case poll_loop c qid n 0 None of
        (Inl e, waited) \<Rightarrow> (Inl e, waited)
      | (Inr (Returned r), waited) \<Rightarrow> (Inr r, waited)
      | (Inr (Fell_through None), waited) \<Rightarrow> (Inl unbound_status, waited)
      | (Inr (Fell_through (Some s)), waited) \<Rightarrow>
          if s \<noteq> ''SUCCEEDED'' then (Inr (Error ''Query timeout''), waited)
          else (case get_query_results c qid of
                  Inl e \<Rightarrow> (Inl e, waited)
                | Inr rows \<Rightarrow> (parse_rows parse rows, waited)))"
  by (simp add: run_query_body_def)

lemma run_query_total: "\<exists>r. fst (run_query c parse query n) = Inr r"
  by (cases "run_query_body c parse query n" rule: prod.exhaust)
     (auto simp: run_query_def split: sum.splits)

lemma run_query_succeeded:
  assumes "start_query_execution c query = Inr qid" "int k < n" "pending_before c qid k"
    "get_query_execution c qid k = Inr (''SUCCEEDED'', r)"
  shows "run_query c parse query n =
     (case get_query_results c qid of
        Inl e \<Rightarrow> (Inr (Error e), k)
      | Inr rows \<Rightarrow> (case parse_rows parse rows of Inl e \<Rightarrow> (Inr (Error e), k) | Inr v \<Rightarrow> (Inr v, k)))"
  using poll_loop_succeeded [OF assms(3,2,4), of None]
  by (simp add: run_query_def run_query_body_started [OF assms(1)] split: sum.splits)

text \<open>
  C5. For every SQL string: when the backend reports \<^verbatim>\<open>SUCCEEDED\<close> (at a poll within
  the budget, the polls before it pending) and the result set holds the header row alone,
  the proxy returns the empty list, a success and not the error dict.
\<close>

theorem header_only_is_empty_success:
  assumes "start_query_execution c query = Inr qid" "int k < n" "pending_before c qid k"
    "get_query_execution c qid k = Inr (''SUCCEEDED'', r)"
    "get_query_results c qid = Inr [header_row]"
  shows "fst (run_query c parse query n) = Inr (Rows [])"
  using run_query_succeeded [OF assms(1-4), of parse] assms(5)
  by (simp add: parse_rows_def)

theorem header_only_is_empty_success_witness:
  "start_query_execution
       (scripted (Inr ''q-1'') [Inr (''QUEUED'', None), Inr (''SUCCEEDED'', None)]
          (Inr [[Some ''device'', Some ''avg_co'']])) avg_metrics_query = Inr ''q-1''
   \<and> fst (run_query
       (scripted (Inr ''q-1'') [Inr (''QUEUED'', None), Inr (''SUCCEEDED'', None)]
          (Inr [[Some ''device'', Some ''avg_co'']])) decimal_float avg_metrics_query 30)
       = Inr (Rows [])"
proof -
  let ?c = "scripted (Inr ''q-1'') [Inr (''QUEUED'', None), Inr (''SUCCEEDED'', None)]
              (Inr [[Some ''device'', Some ''avg_co'']])"
  have h1: "start_query_execution ?c avg_metrics_query = Inr ''q-1''"
    by (simp add: scripted_def)
  have h2: "int 1 < 30" by simp
  have h3: "pending_before ?c ''q-1'' 1"
    by (simp add: pending_before_def is_pending_def scripted_def)
  have h4: "get_query_execution ?c ''q-1'' 1 = Inr (''SUCCEEDED'', None)"
    by (simp add: scripted_def)
  have h5: "get_query_results ?c ''q-1'' = Inr [[Some ''device'', Some ''avg_co'']]"
    by (simp add: scripted_def)
  from header_only_is_empty_success [OF h1 h2 h3 h4 h5, of decimal_float] h1
  show ?thesis by simp
qed

text \<open>
  C6. For every SQL string: when a status poll within the budget observes \<^verbatim>\<open>FAILED\<close> or
  \<^verbatim>\<open>CANCELLED\<close> (the polls before it pending), the proxy returns the error dict at
  once. Its message carries the state and the \<^verbatim>\<open>StateChangeReason\<close> of the backend
  (\<^verbatim>\<open>Unknown\<close> when the backend gives none), and the number of sleeps made is the number
  of polls before this one, which is below the budget.
\<close>

theorem failed_or_cancelled_returns_at_once:
  assumes "start_query_execution c query = Inr qid" "int k < n" "pending_before c qid k"
    "get_query_execution c qid k = Inr (state, reason)"
    "state = ''FAILED'' \<or> state = ''CANCELLED''"
  shows "run_query c parse query n =
     (Inr (Error (''Query '' @ state @ '': '' @ (case reason of None \<Rightarrow> ''Unknown'' | Some r \<Rightarrow> r))), k)"
  using poll_loop_failed [OF assms(3,2,4,5), of None]
  by (simp add: run_query_def run_query_body_started [OF assms(1)])

theorem failed_or_cancelled_returns_at_once_witness:
  "int 1 < 30
   \<and> run_query
       (scripted (Inr ''q-1'')
          [Inr (''RUNNING'', None), Inr (''FAILED'', Some ''SYNTAX_ERROR: line 1:8'')] (Inr []))
       decimal_float avg_metrics_query 30
       = (Inr (Error ''Query FAILED: SYNTAX_ERROR: line 1:8''), 1)"
proof -
  let ?c = "scripted (Inr ''q-1'')
              [Inr (''RUNNING'', None), Inr (''FAILED'', Some ''SYNTAX_ERROR: line 1:8'')] (Inr [])"
  have h1: "start_query_execution ?c avg_metrics_query = Inr ''q-1''"
    by (simp add: scripted_def)
  have h2: "int 1 < 30" by simp
  have h3: "pending_before ?c ''q-1'' 1"
    by (simp add: pending_before_def is_pending_def scripted_def)
  have h4: "get_query_execution ?c ''q-1'' 1 = Inr (''FAILED'', Some ''SYNTAX_ERROR: line 1:8'')"
    by (simp add: scripted_def)
  have h5: "''FAILED'' = ''FAILED'' \<or> ''FAILED'' = ''CANCELLED''" by simp
  from failed_or_cancelled_returns_at_once [OF h1 h2 h3 h4 h5, of decimal_float]
  show ?thesis by simp
qed

text \<open>
  With a positive budget \<open>n\<close> and every poll within it pending, the proxy makes exactly
  \<open>n\<close> polls and \<open>n\<close> sleeps and then returns the timeout failure.
\<close>

lemma timeout_with_positive_budget:
  assumes "start_query_execution c query = Inr qid" "0 < n" "pending_before c qid (nat n)"
  shows "run_query c parse query n = (Inr (Error ''Query timeout''), nat n)"
proof -
  from poll_loop_exhausted [OF assms(3,2), of None]
  obtain s where "s \<noteq> ''SUCCEEDED''"
    "poll_loop c qid n 0 None = (Inr (Fell_through (Some s)), nat n)" by auto
  then show ?thesis
    by (simp add: run_query_def run_query_body_started [OF assms(1)])
qed

lemma no_budget_no_timeout:
  assumes "start_query_execution c query = Inr qid" "n \<le> 0"
  shows "run_query c parse query n = (Inr (Error unbound_status), 0)"
  using poll_loop_no_budget [OF assms(2), of c qid None]
  by (simp add: run_query_def run_query_body_started [OF assms(1)])

text \<open>
  C7 at the budget \<^verbatim>\<open>max_wait_seconds=0\<close>: no poll is made, so none observes anything
  but PENDING, and the budget is exhausted at once. The loop body never runs, line 45
  reads the unbound \<^verbatim>\<open>status\<close>, and the failure that comes back carries the message of
  that exception and not the timeout.
\<close>

theorem zero_budget_is_not_a_timeout:
  "pending_before (scripted (Inr ''q-1'') [] (Inr [])) ''q-1'' (nat 0)
   \<and> run_query (scripted (Inr ''q-1'') [] (Inr [])) decimal_float avg_metrics_query 0
       = (Inr (Error unbound_status), 0)
   \<and> Error unbound_status \<noteq> Error ''Query timeout''"
proof -
  have "start_query_execution (scripted (Inr ''q-1'') [] (Inr [])) avg_metrics_query = Inr ''q-1''"
    by (simp add: scripted_def)
  from no_budget_no_timeout [OF this, of 0 decimal_float]
  show ?thesis by (simp add: pending_before_def unbound_status_def)
qed

text \<open>
  C4. For every SQL string, every budget and every backend, the proxy returns a value and
  raises nothing. An exception of the submission, of a status poll within the budget or
  of the fetch comes back as the error dict with that exception's message.
\<close>

theorem run_query_never_raises:
  "(\<exists>r. fst (run_query c parse query n) = Inr r)
   \<and> (\<forall>e. start_query_execution c query = Inl e
          \<longrightarrow> fst (run_query c parse query n) = Inr (Error e))
   \<and> (\<forall>e qid k. start_query_execution c query = Inr qid \<and> int k < n \<and> pending_before c qid k
          \<and> get_query_execution c qid k = Inl e
          \<longrightarrow> fst (run_query c parse query n) = Inr (Error e))
   \<and> (\<forall>e qid k r. start_query_execution c query = Inr qid \<and> int k < n \<and> pending_before c qid k
          \<and> get_query_execution c qid k = Inr (''SUCCEEDED'', r)
          \<and> get_query_results c qid = Inl e
          \<longrightarrow> fst (run_query c parse query n) = Inr (Error e))"
proof (intro conjI allI impI)
  show "\<exists>r. fst (run_query c parse query n) = Inr r" by (rule run_query_total)
next
  fix e assume "start_query_execution c query = Inl e"
  then show "fst (run_query c parse query n) = Inr (Error e)"
    by (simp add: run_query_def run_query_body_def)
next
  fix e qid k
  assume a: "start_query_execution c query = Inr qid \<and> int k < n \<and> pending_before c qid k
          \<and> get_query_execution c qid k = Inl e"
  then have "poll_loop c qid n 0 None = (Inl e, k)"
    by (intro poll_loop_raised) auto
  with a show "fst (run_query c parse query n) = Inr (Error e)"
    by (simp add: run_query_def run_query_body_started)
next
  fix e qid k r
  assume a: "start_query_execution c query = Inr qid \<and> int k < n \<and> pending_before c qid k
          \<and> get_query_execution c qid k = Inr (''SUCCEEDED'', r)
          \<and> get_query_results c qid = Inl e"
  then have "run_query c parse query n =
     (case get_query_results c qid of
        Inl e \<Rightarrow> (Inr (Error e), k)
      | Inr rows \<Rightarrow> (case parse_rows parse rows of Inl e \<Rightarrow> (Inr (Error e), k) | Inr v \<Rightarrow> (Inr v, k)))"
    by (intro run_query_succeeded) auto
  with a show "fst (run_query c parse query n) = Inr (Error e)" by simp
qed

theorem run_query_never_raises_witness:
  "fst (run_query sample_down decimal_float avg_metrics_query 30)
     = Inr (Error ''Could not connect to the endpoint URL'')
   \<and> fst (run_query
         (scripted (Inr ''q-1'') [Inr (''RUNNING'', None), Inl ''ThrottlingException''] (Inr []))
         decimal_float avg_metrics_query 30) = Inr (Error ''ThrottlingException'')
   \<and> fst (run_query
         (scripted (Inr ''q-1'') [Inr (''SUCCEEDED'', None)] (Inl ''AccessDeniedException''))
         decimal_float avg_metrics_query 30) = Inr (Error ''AccessDeniedException'')"
proof -
  let ?c2 = "scripted (Inr ''q-1'') [Inr (''RUNNING'', None), Inl ''ThrottlingException''] (Inr [])"
  let ?c3 = "scripted (Inr ''q-1'') [Inr (''SUCCEEDED'', None)] (Inl ''AccessDeniedException'')"
  have a1: "start_query_execution sample_down avg_metrics_query
              = Inl ''Could not connect to the endpoint URL''"
    by (simp add: sample_down_def scripted_def)
  have a2: "start_query_execution ?c2 avg_metrics_query = Inr ''q-1'' \<and> int 1 < 30
              \<and> pending_before ?c2 ''q-1'' 1
              \<and> get_query_execution ?c2 ''q-1'' 1 = Inl ''ThrottlingException''"
    by (simp add: pending_before_def is_pending_def scripted_def)
  have a3: "start_query_execution ?c3 avg_metrics_query = Inr ''q-1'' \<and> int 0 < 30
              \<and> pending_before ?c3 ''q-1'' 0
              \<and> get_query_execution ?c3 ''q-1'' 0 = Inr (''SUCCEEDED'', None)
              \<and> get_query_results ?c3 ''q-1'' = Inl ''AccessDeniedException''"
    by (simp add: pending_before_def is_pending_def scripted_def)
  from run_query_never_raises [of sample_down decimal_float avg_metrics_query 30] a1
  have b1: "fst (run_query sample_down decimal_float avg_metrics_query 30)
              = Inr (Error ''Could not connect to the endpoint URL'')"
    by blast
  from run_query_never_raises [of ?c2 decimal_float avg_metrics_query 30] a2
  have b2: "fst (run_query ?c2 decimal_float avg_metrics_query 30)
              = Inr (Error ''ThrottlingException'')"
    by blast
  from run_query_never_raises [of ?c3 decimal_float avg_metrics_query 30] a3
  have b3: "fst (run_query ?c3 decimal_float avg_metrics_query 30)
              = Inr (Error ''AccessDeniedException'')"
    by blast
  from b1 b2 b3 show ?thesis by simp
qed

section \<open>Properties of the returned rows\<close>

lemma update_entries:
  "(h, v) \<in> set (AList.update k x al) \<Longrightarrow> (h, v) = (k, x) \<or> (h, v) \<in> set al"
  by (induction al) (auto split: if_splits)

lemma coerce_cell_ok: "field_ok h (coerce_cell parse h value)"
  by (simp add: coerce_cell_def field_ok_def split: option.splits)

lemma build_item_ok:
  "build_item parse hs i cells item = Inr item' \<Longrightarrow> \<forall>(h, v) \<in> set item. field_ok h v
     \<Longrightarrow> \<forall>(h, v) \<in> set item'. field_ok h v"
proof (induction cells arbitrary: i item)
  case Nil
  then show ?case by simp
next
  case (Cons cell cells)
  from Cons.prems(1) have i: "i < length hs"
    and b: "build_item parse hs (Suc i) cells
              (AList.update (hs ! i) (coerce_cell parse (hs ! i) cell) item) = Inr item'"
    by (auto split: if_splits)
  have "\<forall>(h, v) \<in> set (AList.update (hs ! i) (coerce_cell parse (hs ! i) cell) item). field_ok h v"
    using Cons.prems(2) coerce_cell_ok by (auto dest!: update_entries)
  with Cons.IH [OF b] show ?case by blast
qed

lemma build_data_ok:
  "build_data parse hs rs data = Inr data' \<Longrightarrow> \<forall>item \<in> set data. \<forall>(h, v) \<in> set item. field_ok h v
     \<Longrightarrow> \<forall>item \<in> set data'. \<forall>(h, v) \<in> set item. field_ok h v"
proof (induction rs arbitrary: data)
  case Nil
  then show ?case by simp
next
  case (Cons r rs)
  from Cons.prems(1) obtain item where it: "build_item parse hs 0 r [] = Inr item"
    and b: "build_data parse hs rs (data @ [item]) = Inr data'"
    by (auto split: sum.splits)
  from build_item_ok [OF it] have "\<forall>(h, v) \<in> set item. field_ok h v" by simp
  with Cons.prems(2) have "\<forall>item \<in> set (data @ [item]). \<forall>(h, v) \<in> set item. field_ok h v"
    by auto
  with Cons.IH [OF b] show ?case by blast
qed

lemma parse_rows_ok:
  "parse_rows parse rows = Inr (Rows data) \<Longrightarrow> \<forall>item \<in> set data. \<forall>(h, v) \<in> set item. field_ok h v"
  by (auto simp: parse_rows_def split: if_splits sum.splits dest!: build_data_ok)

lemma poll_loop_returns_error:
  "poll_loop c q n w st = (Inr (Returned r), w') \<Longrightarrow> \<exists>e. r = Error e"
proof (induction c q n w st rule: poll_loop.induct)
  case (1 c q n w st)
  from "1.prems" show ?case
    apply (subst (asm) poll_loop.simps)
    apply (auto split: if_splits sum.splits prod.splits dest: "1.IH")
    done
qed

lemma run_query_rows:
  assumes "fst (run_query c parse query n) = Inr (Rows data)"
  shows "\<exists>qid rows. start_query_execution c query = Inr qid
           \<and> get_query_results c qid = Inr rows \<and> parse_rows parse rows = Inr (Rows data)"
proof (cases "start_query_execution c query")
  case (Inl e)
  with assms show ?thesis by (simp add: run_query_def run_query_body_def)
next
  case (Inr qid)
  obtain x w where p: "poll_loop c qid n 0 None = (x, w)" by (cases "poll_loop c qid n 0 None")
  show ?thesis
  proof (cases x)
    case (Inl e)
    with assms Inr p show ?thesis by (simp add: run_query_def run_query_body_def)
  next
    case Inr': (Inr ex)
    show ?thesis
    proof (cases ex)
      case (Returned r)
      with p Inr' poll_loop_returns_error obtain e where "r = Error e" by blast
      with assms Inr p Inr' Returned show ?thesis by (simp add: run_query_def run_query_body_def)
    next
      case (Fell_through s)
      with assms Inr p Inr' show ?thesis
        by (auto simp: run_query_def run_query_body_def split: option.splits if_splits sum.splits)
    qed
  qed
qed

lemma sample_success_data:
  "fst (run_query sample_success decimal_float latest_query 30) = Inr (Rows sample_data)"
  by (simp add: sample_defs proxy_defs)

lemma build_item_keeps:
  "build_item parse hs k cells item = Inr item' \<Longrightarrow> distinct hs \<Longrightarrow> j < k \<Longrightarrow> j < length hs
     \<Longrightarrow> map_of item' (hs ! j) = map_of item (hs ! j)"
proof (induction cells arbitrary: k item)
  case Nil
  then show ?case by simp
next
  case (Cons cell cells)
  from Cons.prems(1) have k: "k < length hs"
    and b: "build_item parse hs (Suc k) cells
              (AList.update (hs ! k) (coerce_cell parse (hs ! k) cell) item) = Inr item'"
    by (auto split: if_splits)
  have ne: "hs ! j \<noteq> hs ! k"
    using Cons.prems(2,3,4) k by (simp add: nth_eq_iff_index_eq)
  have "map_of item' (hs ! j)
      = map_of (AList.update (hs ! k) (coerce_cell parse (hs ! k) cell) item) (hs ! j)"
    using Cons.IH [OF b Cons.prems(2)] Cons.prems(3,4) by simp
  also have "\<dots> = map_of item (hs ! j)"
    using ne by (simp add: update_conv')
  finally show ?case .
qed

lemma build_item_lookup:
  "build_item parse hs k cells item = Inr item' \<Longrightarrow> distinct hs \<Longrightarrow> i < length cells
     \<Longrightarrow> k + i < length hs
         \<and> map_of item' (hs ! (k + i)) = Some (coerce_cell parse (hs ! (k + i)) (cells ! i))"
proof (induction cells arbitrary: k item i)
  case Nil
  then show ?case by simp
next
  case (Cons cell cells)
  from Cons.prems(1) have k: "k < length hs"
    and b: "build_item parse hs (Suc k) cells
              (AList.update (hs ! k) (coerce_cell parse (hs ! k) cell) item) = Inr item'"
    by (auto split: if_splits)
  show ?case
  proof (cases i)
    case 0
    have "map_of item' (hs ! k)
        = map_of (AList.update (hs ! k) (coerce_cell parse (hs ! k) cell) item) (hs ! k)"
      using build_item_keeps [OF b Cons.prems(2), of k] k by simp
    then show ?thesis using 0 k by (simp add: update_conv')
  next
    case (Suc i')
    with Cons.prems(3) have "i' < length cells" by simp
    from Cons.IH [OF b Cons.prems(2) this] Suc show ?thesis by simp
  qed
qed

lemma build_data_prefix:
  "build_data parse hs rs data = Inr data' \<Longrightarrow> \<exists>ys. data' = data @ ys \<and> length ys = length rs"
proof (induction rs arbitrary: data)
  case Nil
  then show ?case by simp
next
  case (Cons r rs)
  from Cons.prems obtain item where b: "build_data parse hs rs (data @ [item]) = Inr data'"
    by (auto split: sum.splits)
  from Cons.IH [OF b] show ?case by auto
qed

lemma build_data_nth:
  "build_data parse hs rs data = Inr data' \<Longrightarrow> r < length rs
     \<Longrightarrow> length data + r < length data'
         \<and> build_item parse hs 0 (rs ! r) [] = Inr (data' ! (length data + r))"
proof (induction rs arbitrary: data r)
  case Nil
  then show ?case by simp
next
  case (Cons x rs)
  from Cons.prems(1) obtain item where it: "build_item parse hs 0 x [] = Inr item"
    and b: "build_data parse hs rs (data @ [item]) = Inr data'"
    by (auto split: sum.splits)
  show ?case
  proof (cases r)
    case 0
    from build_data_prefix [OF b] obtain ys where "data' = (data @ [item]) @ ys" by blast
    then show ?thesis using 0 it by (simp add: nth_append)
  next
    case (Suc r')
    with Cons.prems(2) have "r' < length rs" by simp
    from Cons.IH [OF b this] Suc show ?thesis by simp
  qed
qed

lemma read_headers_names: "read_headers (map Some hs) = Inr hs"
  by (induction hs) simp_all

lemma parse_rows_field:
  assumes "parse_rows parse (map Some hs # body_rows) = Inr (Rows data)"
    and "distinct hs" and "r < length body_rows" and "i < length (body_rows ! r)"
  shows "r < length data \<and> i < length hs
     \<and> map_of (data ! r) (hs ! i) = Some (coerce_cell parse (hs ! i) (body_rows ! r ! i))"
proof -
  from assms(1,3) have b: "build_data parse hs body_rows [] = Inr data"
    by (auto simp: parse_rows_def read_headers_names split: if_splits sum.splits)
  from build_data_nth [OF b assms(3)]
  have r: "r < length data" and it: "build_item parse hs 0 (body_rows ! r) [] = Inr (data ! r)"
    by simp_all
  from build_item_lookup [OF it assms(2,4)] r show ?thesis by simp
qed

lemma run_query_kinds:
  assumes "fst (run_query c parse query n) = Inr (Rows data)"
    and "item \<in> set data" and "(h, v) \<in> set item"
  shows "(\<exists>x. v = VFloat x) \<or> (\<exists>s. v = VStr s)
     \<or> (v = VNone \<and> h \<in> {''device'', ''device_id'', ''alert_key''})"
proof -
  from run_query_rows [OF assms(1)] obtain rows where "parse_rows parse rows = Inr (Rows data)"
    by blast
  from parse_rows_ok [OF this] assms(2,3) have "field_ok h v" by blast
  then show ?thesis by (cases v) (simp_all add: field_ok_def identifier_columns_def)
qed

lemma run_query_missing_cell:
  assumes "fst (run_query c parse query n) = Inr (Rows data)"
    and "start_query_execution c query = Inr qid
         \<and> get_query_results c qid = Inr (map Some headers # body_rows)
         \<and> distinct headers \<and> r < length body_rows \<and> i < length (body_rows ! r)
         \<and> body_rows ! r ! i = None"
  shows "r < length data \<and> i < length headers
     \<and> map_of (data ! r) (headers ! i) =
         Some (if headers ! i \<in> {''device'', ''device_id'', ''alert_key''}
               then VNone else VFloat (Fin 0))"
proof -
  from run_query_rows [OF assms(1)] assms(2)
  have "parse_rows parse (map Some headers # body_rows) = Inr (Rows data)" by auto
  from parse_rows_field [OF this, of r i] assms(2) show ?thesis
    by (simp add: coerce_cell_def py_float_def identifier_columns_def)
qed

text \<open>
  C3, as the code has it. Every field of every row that the proxy returns is a float, a
  string or \<^verbatim>\<open>None\<close>, and \<^verbatim>\<open>None\<close> occurs under the identifier columns only. A cell
  without a value becomes \<^verbatim>\<open>None\<close> under an identifier column (line 73 stores what line
  62 read) and the float 0.0 under every other column.
\<close>

theorem row_fields_float_string_or_none:
  assumes "fst (run_query c parse query n) = Inr (Rows data)"
  shows "(\<forall>item \<in> set data. \<forall>(h, v) \<in> set item.
            (\<exists>x. v = VFloat x) \<or> (\<exists>s. v = VStr s)
            \<or> (v = VNone \<and> h \<in> {''device'', ''device_id'', ''alert_key''}))
     \<and> (\<forall>qid headers body_rows r i.
            start_query_execution c query = Inr qid
            \<and> get_query_results c qid = Inr (map Some headers # body_rows)
            \<and> distinct headers \<and> r < length body_rows \<and> i < length (body_rows ! r)
            \<and> body_rows ! r ! i = None
            \<longrightarrow> r < length data \<and> i < length headers
                \<and> map_of (data ! r) (headers ! i) =
                    Some (if headers ! i \<in> {''device'', ''device_id'', ''alert_key''}
                          then VNone else VFloat (Fin 0)))"
proof -
  have kinds: "\<forall>item \<in> set data. \<forall>(h, v) \<in> set item.
            (\<exists>x. v = VFloat x) \<or> (\<exists>s. v = VStr s)
            \<or> (v = VNone \<and> h \<in> {''device'', ''device_id'', ''alert_key''})"
    using run_query_kinds [OF assms] by blast
  have missing: "\<forall>qid headers body_rows r i.
            start_query_execution c query = Inr qid
            \<and> get_query_results c qid = Inr (map Some headers # body_rows)
            \<and> distinct headers \<and> r < length body_rows \<and> i < length (body_rows ! r)
            \<and> body_rows ! r ! i = None
            \<longrightarrow> r < length data \<and> i < length headers
                \<and> map_of (data ! r) (headers ! i) =
                    Some (if headers ! i \<in> {''device'', ''device_id'', ''alert_key''}
                          then VNone else VFloat (Fin 0))"
    using run_query_missing_cell [OF assms] by blast
  from kinds missing show ?thesis by (rule conjI)
qed

theorem row_fields_float_string_or_none_witness:
  "fst (run_query sample_nulls decimal_float latest_query 30)
     = Inr (Rows [[(''device'', VNone), (''co'', VFloat (Fin 0))]])
   \<and> map_of ([[(''device'', VNone), (''co'', VFloat (Fin 0))]] ! 0) ([''device'', ''co''] ! 0)
       = Some VNone
   \<and> map_of ([[(''device'', VNone), (''co'', VFloat (Fin 0))]] ! 0) ([''device'', ''co''] ! 1)
       = Some (VFloat (Fin 0))
   \<and> ((\<exists>x. VNone = VFloat x) \<or> (\<exists>s. VNone = VStr s)
        \<or> (VNone = VNone \<and> ''device'' \<in> {''device'', ''device_id'', ''alert_key''}))"
proof -
  let ?data = "[[(''device'', VNone), (''co'', VFloat (Fin 0))]]"
  let ?hs = "[''device'', ''co'']"
  let ?body = "[[None, None :: string option]]"
  have h1: "fst (run_query sample_nulls decimal_float latest_query 30) = Inr (Rows ?data)"
    by (simp add: sample_defs proxy_defs)
  note t = row_fields_float_string_or_none [OF h1]
  have g0: "start_query_execution sample_nulls latest_query = Inr ''q-1''
            \<and> get_query_results sample_nulls ''q-1'' = Inr (map Some ?hs # ?body)
            \<and> distinct ?hs \<and> 0 < length ?body \<and> 0 < length (?body ! 0)
            \<and> ?body ! 0 ! 0 = None"
    by (simp add: sample_defs)
  have g1: "start_query_execution sample_nulls latest_query = Inr ''q-1''
            \<and> get_query_results sample_nulls ''q-1'' = Inr (map Some ?hs # ?body)
            \<and> distinct ?hs \<and> 0 < length ?body \<and> 1 < length (?body ! 0)
            \<and> ?body ! 0 ! 1 = None"
    by (simp add: sample_defs)
  from t [THEN conjunct2, rule_format, OF g0]
  have c0: "map_of (?data ! 0) (?hs ! 0) = Some VNone" by simp
  from t [THEN conjunct2, rule_format, OF g1]
  have c1: "map_of (?data ! 0) (?hs ! 1) = Some (VFloat (Fin 0))" by simp
  from t [THEN conjunct1]
  have c2: "(\<exists>x. VNone = VFloat x) \<or> (\<exists>s. VNone = VStr s)
      \<or> (VNone = VNone \<and> ''device'' \<in> {''device'', ''device_id'', ''alert_key''})"
    by simp
  from h1 c0 c1 c2 show ?thesis by simp
qed

text \<open>
  Where C3 as stated fails: a data row whose \<^verbatim>\<open>device\<close> cell has no value comes back with
  \<^verbatim>\<open>None\<close> in that field.
\<close>

theorem missing_identifier_cell_is_none:
  "run_query (scripted (Inr ''q-1'') [Inr (''SUCCEEDED'', None)]
               (Inr [[Some ''device'', Some ''co''], [None, Some ''0.004'']]))
     decimal_float latest_query 30
   = (Inr (Rows [[(''device'', VNone), (''co'', VFloat (Fin 0.004))]]), 0)"
  by (simp add: sample_defs proxy_defs)

text \<open>
  C2. Take a result set with distinct column names whose row \<open>r\<close> has the value \<open>s\<close> in
  cell \<open>i\<close>. In the row that the proxy returns for it, the field of that column is: the
  float that \<open>s\<close> parses to, when it parses; else \<open>s\<close> itself under \<^verbatim>\<open>device\<close>,
  \<^verbatim>\<open>device_id\<close> or \<^verbatim>\<open>alert_key\<close>; else the float 0.0.
\<close>

theorem cell_coercion:
  assumes "fst (run_query c parse query n) = Inr (Rows data)"
    and "start_query_execution c query = Inr qid"
    and "get_query_results c qid = Inr (map Some headers # body_rows)"
    and "distinct headers" and "r < length body_rows" and "i < length (body_rows ! r)"
    and "body_rows ! r ! i = Some s"
  shows "r < length data \<and> i < length headers
     \<and> map_of (data ! r) (headers ! i) =
         Some (case parse s of
                 Some x \<Rightarrow> VFloat x
               | None \<Rightarrow> if headers ! i \<in> {''device'', ''device_id'', ''alert_key''}
                         then VStr s else VFloat (Fin 0))"
proof -
  from run_query_rows [OF assms(1)] assms(2,3)
  have "parse_rows parse (map Some headers # body_rows) = Inr (Rows data)" by auto
  from parse_rows_field [OF this assms(4,5,6)] assms(7) show ?thesis
    by (simp add: coerce_cell_def py_float_def identifier_columns_def split: option.splits)
qed

theorem cell_coercion_witness:
  "fst (run_query sample_success decimal_float latest_query 30) = Inr (Rows sample_data)
   \<and> map_of (sample_data ! 0) ''temp'' = Some (VFloat (Fin 12.5))
   \<and> map_of (sample_data ! 0) ''device'' = Some (VStr ''tent-1'')
   \<and> map_of (sample_data ! 0) ''smoke'' = Some (VFloat (Fin 0))"
proof -
  let ?hs = "[''device'', ''temp'', ''smoke'']"
  let ?body = "[[Some ''tent-1'', Some ''12.5'', Some ''n/a'']]"
  have h2: "start_query_execution sample_success latest_query = Inr ''q-1''"
    by (simp add: sample_defs)
  have h3: "get_query_results sample_success ''q-1'' = Inr (map Some ?hs # ?body)"
    by (simp add: sample_defs)
  have h4: "distinct ?hs" by simp
  have h5: "0 < length ?body" by simp
  have i0: "0 < length (?body ! 0)" and i1: "1 < length (?body ! 0)"
    and i2: "2 < length (?body ! 0)" by simp_all
  have s0: "?body ! 0 ! 0 = Some ''tent-1''" and s1: "?body ! 0 ! 1 = Some ''12.5''"
    and s2: "?body ! 0 ! 2 = Some ''n/a''" by simp_all
  from cell_coercion [OF sample_success_data h2 h3 h4 h5 i0 s0]
  have "map_of (sample_data ! 0) ''device'' = Some (VStr ''tent-1'')"
    by (simp add: sample_defs)
  moreover from cell_coercion [OF sample_success_data h2 h3 h4 h5 i1 s1]
  have "map_of (sample_data ! 0) ''temp'' = Some (VFloat (Fin 12.5))"
    by (simp add: sample_defs)
  moreover from cell_coercion [OF sample_success_data h2 h3 h4 h5 i2 s2]
  have "map_of (sample_data ! 0) ''smoke'' = Some (VFloat (Fin 0))"
    by (simp add: sample_defs)
  ultimately show ?thesis using sample_success_data by simp
qed



section \<open>Properties of the handlers\<close>

lemma aggregate_response:
  "\<exists>rs. aggregate c parse query = Inr \<lparr>status = 200, body = Arr rs\<rparr>
     \<and> (reports_failure (run_query c parse query 30) \<longrightarrow> rs = [])"
proof -
  from run_query_total obtain d where d: "fst (run_query c parse query 30) = Inr d" by blast
  show ?thesis
    by (cases d)
       (simp_all add: aggregate_def d jsonify_def truthy_def is_error_dict_def reports_failure_def)
qed

lemma latest_response:
  "\<exists>rs. latest c parse now = Inr \<lparr>status = 200, body = Arr (rs @ [simulated_alert_row now])\<rparr>
     \<and> (reports_failure (run_query c parse latest_query 30) \<longrightarrow> rs = [])"
proof -
  from run_query_total obtain d where d: "fst (run_query c parse latest_query 30) = Inr d" by blast
  show ?thesis
  proof (cases d)
    case (Error e)
    then show ?thesis
      by (simp add: latest_def d jsonify_def truthy_def is_error_dict_def)
  next
    case (Rows rs)
    then show ?thesis
      by (cases "rs = []")
         (simp_all add: latest_def d jsonify_def truthy_def is_error_dict_def reports_failure_def)
  qed
qed

lemma acknowledge_response:
  assumes "fst (acknowledge_alert request_json acked) = Inr r" and "status r \<noteq> 200"
  shows "status r = 400
     \<and> (\<exists>items. request_json = Inr (VDict items) \<and> \<not> truth (dict_get items ''alert_key''))"
proof (cases request_json)
  case (Inl e)
  with assms show ?thesis by (simp add: acknowledge_alert_def)
next
  case (Inr v)
  with assms show ?thesis
    by (cases v) (auto simp: acknowledge_alert_def Let_def split: if_splits)
qed

text \<open>
  C8. Whatever the backend does (rows, no rows, a failure, an exception), \<^verbatim>\<open>GET /latest\<close>
  answers 200 with an array that contains the simulated record, whose \<^verbatim>\<open>device\<close> is
  \<^verbatim>\<open>b8:27:eb:bf:9d:51\<close> and whose \<^verbatim>\<open>co\<close> is 0.1305.
\<close>

theorem latest_has_simulated_alert:
  "\<exists>rs. latest c parse now = Inr \<lparr>status = 200, body = Arr rs\<rparr>
     \<and> simulated_alert_row now \<in> set rs
     \<and> map_of (simulated_alert_row now) ''device'' = Some (VStr ''b8:27:eb:bf:9d:51'')
     \<and> map_of (simulated_alert_row now) ''co'' = Some (VFloat (Fin 0.1305))"
proof -
  from latest_response [of c parse now] obtain rs where
    "latest c parse now = Inr \<lparr>status = 200, body = Arr (rs @ [simulated_alert_row now])\<rparr>"
    by blast
  moreover have "map_of (simulated_alert_row now) ''device'' = Some (VStr ''b8:27:eb:bf:9d:51'')"
    by (simp add: simulated_alert_row_def)
  moreover have "map_of (simulated_alert_row now) ''co'' = Some (VFloat (Fin 0.1305))"
    by (simp add: simulated_alert_row_def)
  ultimately show ?thesis by auto
qed

text \<open>
  C9. In every state of the acknowledged set, a \<^verbatim>\<open>POST /acknowledge_alert\<close> whose body
  has no \<^verbatim>\<open>alert_key\<close> value (the key is absent or null) is answered with status 400 and
  \<^verbatim>\<open>{"success": false}\<close>, and the set is left as it was.
\<close>

theorem acknowledge_without_key:
  assumes "request_json = Inr (VDict items)"
    and "map_of items ''alert_key'' = None \<or> map_of items ''alert_key'' = Some VNone"
  shows "acknowledge_alert request_json acked =
           (Inr \<lparr>status = 400, body = Obj [(''success'', VBool False)]\<rparr>, acked)"
  using assms by (auto simp: acknowledge_alert_def dict_get_def)

theorem acknowledge_without_key_witness:
  "map_of ([] :: (string \<times> pyval) list) ''alert_key'' = None
   \<and> acknowledge_alert (Inr (VDict [])) [VStr ''simulated_tent1_danger_130''] =
       (Inr \<lparr>status = 400, body = Obj [(''success'', VBool False)]\<rparr>,
        [VStr ''simulated_tent1_danger_130''])
   \<and> (400::nat) \<noteq> 200"
proof -
  have h1: "(Inr (VDict []) :: string + pyval) = Inr (VDict [])" by simp
  have h2: "map_of ([] :: (string \<times> pyval) list) ''alert_key'' = None
             \<or> map_of ([] :: (string \<times> pyval) list) ''alert_key'' = Some VNone"
    by simp
  from acknowledge_without_key [OF h1 h2, of "[VStr ''simulated_tent1_danger_130'']"]
  show ?thesis by simp
qed

text \<open>
  C1, as the code has it. When the proxy reports a failure, the handler of every
  endpoint that calls it answers 200: the five aggregate endpoints with the empty array,
  \<^verbatim>\<open>GET /latest\<close> with the array that holds the simulated record alone. Every handler
  other than the acknowledge endpoint returns a response with status 200 whatever
  happens, so the acknowledge endpoint is the only one that can answer otherwise. A
  response that it returns with another status has status 400, and the \<^verbatim>\<open>alert_key\<close> of
  the body is then absent or false as a Python value (null, the empty string, zero,
  false, an empty list or dict).
\<close>

theorem handler_statuses:
  "(ep \<noteq> AcknowledgeAlert \<longrightarrow>
      (\<exists>r. fst (handle w ep acked) = Inr r \<and> status r = 200
         \<and> (ep \<in> {AvgMetrics, MaxMetrics, AlertCounts, HumidityCo, TempDist} \<and> proxy_failed w ep
               \<longrightarrow> body r = Arr [])
         \<and> (ep = Latest \<and> proxy_failed w ep
               \<longrightarrow> body r = Arr [simulated_alert_row (time_now w)])))
   \<and> (\<forall>r. fst (handle w AcknowledgeAlert acked) = Inr r \<and> status r \<noteq> 200
         \<longrightarrow> status r = 400
             \<and> (\<exists>items. json_body w = Inr (VDict items)
                    \<and> \<not> truth (dict_get items ''alert_key'')))"
proof (rule conjI)
  show "ep \<noteq> AcknowledgeAlert \<longrightarrow>
      (\<exists>r. fst (handle w ep acked) = Inr r \<and> status r = 200
         \<and> (ep \<in> {AvgMetrics, MaxMetrics, AlertCounts, HumidityCo, TempDist} \<and> proxy_failed w ep
               \<longrightarrow> body r = Arr [])
         \<and> (ep = Latest \<and> proxy_failed w ep
               \<longrightarrow> body r = Arr [simulated_alert_row (time_now w)]))"
  proof (cases ep)
    case Latest
    from latest_response [of "backend w" "float_of w" "time_now w"] show ?thesis
      by (auto simp: Latest proxy_failed_def)
  next
    case CoTrend
    then show ?thesis by (simp add: co_trend_def jsonify_def)
  next
    case AvgMetrics
    from aggregate_response [of "backend w" "float_of w" avg_metrics_query] show ?thesis
      by (auto simp: AvgMetrics proxy_failed_def avg_metrics_def)
  next
    case MaxMetrics
    from aggregate_response [of "backend w" "float_of w" max_metrics_query] show ?thesis
      by (auto simp: MaxMetrics proxy_failed_def max_metrics_def)
  next
    case AlertCounts
    from aggregate_response [of "backend w" "float_of w" alert_counts_query] show ?thesis
      by (auto simp: AlertCounts proxy_failed_def alert_counts_def)
  next
    case HumidityCo
    from aggregate_response [of "backend w" "float_of w" humidity_co_query] show ?thesis
      by (auto simp: HumidityCo proxy_failed_def humidity_co_def)
  next
    case TempDist
    from aggregate_response [of "backend w" "float_of w" temp_dist_query] show ?thesis
      by (auto simp: TempDist proxy_failed_def temp_dist_def)
  next
    case AcknowledgeAlert
    then show ?thesis by simp
  next
    case ResetAlerts
    then show ?thesis by (simp add: reset_alerts_def)
  qed
next
  show "\<forall>r. fst (handle w AcknowledgeAlert acked) = Inr r \<and> status r \<noteq> 200
         \<longrightarrow> status r = 400
             \<and> (\<exists>items. json_body w = Inr (VDict items)
                    \<and> \<not> truth (dict_get items ''alert_key''))"
  proof (intro allI impI)
    fix r
    assume "fst (handle w AcknowledgeAlert acked) = Inr r \<and> status r \<noteq> 200"
    then have "fst (acknowledge_alert (json_body w) acked) = Inr r" and "status r \<noteq> 200"
      by simp_all
    then show "status r = 400
        \<and> (\<exists>items. json_body w = Inr (VDict items) \<and> \<not> truth (dict_get items ''alert_key''))"
      by (rule acknowledge_response)
  qed
qed

lemma sample_world_fails: "proxy_failed sample_world ep = (ep \<in> set query_endpoints)"
  by (cases ep)
     (simp_all add: proxy_failed_def reports_failure_def query_endpoints_def run_query_def
        run_query_body_def sample_world_def sample_down_def scripted_def)

lemma sample_world_acknowledge:
  "fst (handle sample_world AcknowledgeAlert []) =
     Inr \<lparr>status = 400, body = Obj [(''success'', VBool False)]\<rparr>"
  by (simp add: acknowledge_alert_def dict_get_def sample_world_def)

theorem handler_statuses_witness:
  "proxy_failed sample_world AvgMetrics
   \<and> fst (handle sample_world AvgMetrics []) = Inr \<lparr>status = 200, body = Arr []\<rparr>
   \<and> fst (handle sample_world AcknowledgeAlert []) =
       Inr \<lparr>status = 400, body = Obj [(''success'', VBool False)]\<rparr>
   \<and> json_body sample_world = Inr (VDict [])
   \<and> \<not> truth (dict_get [] ''alert_key'')"
proof -
  note t = handler_statuses [of AvgMetrics sample_world "[]"]
  have f: "proxy_failed sample_world AvgMetrics"
    by (simp add: sample_world_fails query_endpoints_def)
  from t f obtain r where r: "fst (handle sample_world AvgMetrics []) = Inr r"
    "status r = 200" "body r = Arr []"
    by auto
  then have a: "fst (handle sample_world AvgMetrics []) = Inr \<lparr>status = 200, body = Arr []\<rparr>"
    by (cases r) simp
  let ?r = "\<lparr>status = 400, body = Obj [(''success'', VBool False)]\<rparr>"
  have k: "fst (handle sample_world AcknowledgeAlert []) = Inr ?r \<and> status ?r \<noteq> 200"
    by (simp add: sample_world_acknowledge del: handle.simps)
  from t [THEN conjunct2, rule_format, OF k]
  obtain items where "json_body sample_world = Inr (VDict items)"
    "\<not> truth (dict_get items ''alert_key'')"
    by auto
  moreover have "json_body sample_world = Inr (VDict [])" by (simp add: sample_world_def)
  ultimately have "\<not> truth (dict_get [] ''alert_key'')" by simp
  with f a sample_world_acknowledge show ?thesis by (simp add: sample_world_def del: handle.simps)
qed

text \<open>
  Where C1 as stated fails. With a backend that cannot be reached the proxy reports a
  failure, and \<^verbatim>\<open>GET /latest\<close> answers with one record, not with the empty array. And the
  acknowledge endpoint answers 400 to a body whose \<^verbatim>\<open>alert_key\<close> is there, as the empty
  string.
\<close>

theorem latest_failure_and_empty_key:
  "proxy_failed sample_world Latest
   \<and> fst (handle sample_world Latest []) =
       Inr \<lparr>status = 200, body = Arr [simulated_alert_row 1700000000]\<rparr>
   \<and> fst (handle sample_world Latest []) \<noteq> Inr \<lparr>status = 200, body = Arr []\<rparr>
   \<and> map_of [(''alert_key'', VStr [])] ''alert_key'' = Some (VStr [])
   \<and> acknowledge_alert (Inr (VDict [(''alert_key'', VStr [])])) [] =
       (Inr \<lparr>status = 400, body = Obj [(''success'', VBool False)]\<rparr>, [])"
proof -
  have f: "proxy_failed sample_world Latest"
    by (simp add: sample_world_fails query_endpoints_def)
  have l: "fst (handle sample_world Latest []) =
       Inr \<lparr>status = 200, body = Arr [simulated_alert_row 1700000000]\<rparr>"
    by (simp add: latest_def jsonify_def truthy_def is_error_dict_def run_query_def
        run_query_body_def sample_world_def sample_down_def scripted_def)
  have a: "acknowledge_alert (Inr (VDict [(''alert_key'', VStr [])])) [] =
       (Inr \<lparr>status = 400, body = Obj [(''success'', VBool False)]\<rparr>, [])"
    by (simp add: acknowledge_alert_def dict_get_def)
  from f l a show ?thesis by simp
qed

end
